theory Spec2Isabelle
  imports Main "HOL-Library.Multiset" "HOL-Library.List_Lexorder"
begin

section \<open>Python strings\<close>

text \<open>
  A Python \<open>str\<close> is a sequence of Unicode code points, and \<open>len\<close>, slicing and
  \<open>in\<close> count code points. The keyword tables of the classifier are Hangul, so a
  string is modelled as the list of its code points. ASCII literals of the source are
  written through \<open>u\<close>; the Hangul literals are written out as code points.
\<close>

type_synonym ustr = "nat list"

definition u :: "string \<Rightarrow> ustr" where
  "u s = map of_char s"

text \<open>\<open>k in s\<close> on strings: \<open>k\<close> occurs in \<open>s\<close> as a contiguous run.\<close>

definition starts_with :: "ustr \<Rightarrow> ustr \<Rightarrow> bool" where
  "starts_with k s = (take (length k) s = k)"

fun str_in :: "ustr \<Rightarrow> ustr \<Rightarrow> bool" where
  "str_in k [] = (k = [])"
| "str_in k (c # s) = (starts_with k (c # s) \<or> str_in k s)"

text \<open>
  Substring containment as the specification words it: \<open>k\<close> lies somewhere inside
  \<open>s\<close>; and a text matches a keyword set when it contains one of its keywords.
\<close>

definition contains :: "ustr \<Rightarrow> ustr \<Rightarrow> bool" where
  "contains s k = (\<exists>ps ss. s = ps @ k @ ss)"

definition matches :: "ustr list \<Rightarrow> ustr \<Rightarrow> bool" where
  "matches ks s = (\<exists>k \<in> set ks. contains s k)"

text \<open>\<open>s.endswith(m)\<close>.\<close>

definition ends_with :: "ustr \<Rightarrow> ustr \<Rightarrow> bool" where
  "ends_with m s = (length m \<le> length s \<and> drop (length s - length m) s = m)"

text \<open>
  \<open>str.isspace\<close> of CPython: the code points that \<open>strip\<close> and \<open>rstrip\<close>
  without an argument remove.
\<close>

definition is_space :: "nat \<Rightarrow> bool" where
  "is_space c = ((9 \<le> c \<and> c \<le> 13) \<or> (28 \<le> c \<and> c \<le> 32) \<or> c = 133 \<or> c = 160
     \<or> c = 5760 \<or> (8192 \<le> c \<and> c \<le> 8202) \<or> c = 8232 \<or> c = 8233 \<or> c = 8239
     \<or> c = 8287 \<or> c = 12288)"

definition lstrip :: "ustr \<Rightarrow> ustr" where
  "lstrip s = dropWhile is_space s"

definition rstrip :: "ustr \<Rightarrow> ustr" where
  "rstrip s = rev (dropWhile is_space (rev s))"

definition strip :: "ustr \<Rightarrow> ustr" where
  "strip s = rstrip (lstrip s)"

text \<open>
  \<open>str.lower\<close> maps every position of the string to the lower-case expansion of its
  code point (one code point may become several, and the capital sigma looks at its
  neighbours). The Unicode case table is not part of the repository: it is the
  parameter \<open>lc\<close>, which receives the text before the position, the code point and the
  text after it.
\<close>

type_synonym casemap = "ustr \<Rightarrow> nat \<Rightarrow> ustr \<Rightarrow> ustr"

fun lower_from :: "casemap \<Rightarrow> ustr \<Rightarrow> ustr \<Rightarrow> ustr" where
  "lower_from lc before [] = []"
| "lower_from lc before (c # rest) = lc before c rest @ lower_from lc (before @ [c]) rest"

definition lower :: "casemap \<Rightarrow> ustr \<Rightarrow> ustr" where
  "lower lc s = lower_from lc [] s"

text \<open>A case table that lowers the ASCII capitals and keeps every other code point.\<close>

definition ascii_lower :: casemap where
  "ascii_lower before c rest = (if 65 \<le> c \<and> c \<le> 90 then [c + 32] else [c])"

text \<open>The Hangul syllables block, U+AC00 to U+D7A3: code points without case.\<close>

definition hangul_syllable :: "nat \<Rightarrow> bool" where
  "hangul_syllable c = (44032 \<le> c \<and> c \<le> 55203)"


section \<open>services/nlp\_service.py\<close>

definition EMERGENCY_KEYWORDS :: "ustr list" where
  "EMERGENCY_KEYWORDS = [[50416, 47084], [54868, 51116], [48520, 51060], [54253, 48156],
     [50948, 54744], [50948, 46021], [49324, 44256], [54588, 44032], [54253, 54665]]"

definition FACILITY_KEYWORDS :: "ustr list" where
  "FACILITY_KEYWORDS = [[44032, 47196, 46321], [46020, 47196], [48372, 46020],
     [45208, 47924], [50416, 47084, 51256], [51204, 49440], [50416, 47112, 44592],
     [49884, 49444], [44148, 47932]]"

definition PENSION_KEYWORDS :: "ustr list" where
  "PENSION_KEYWORDS = [[50672, 44552], [44397, 48124, 50672, 44552],
     [44592, 52488, 50672, 44552], [49688, 44553], [48373, 51648]]"

definition MENTAL_KEYWORDS :: "ustr list" where
  "MENTAL_KEYWORDS = [[50864, 50872], [48520, 50504], [49345, 45812], [49900, 47532],
     [44340, 47196], [55192, 46308], [51453, 44256, 32, 49910]]"

text \<open>
  The dataclass \<open>AnalysisResult\<close>. Several classes and tables of the program share
  field names, so each record's fields carry a prefix.
\<close>

record AnalysisResult =
  ar_summary_text :: ustr
  ar_category :: ustr
  ar_severity :: ustr
  ar_handling_type :: ustr
  ar_handling_desc :: ustr

text \<open>The marker appended by \<open>summarize\<close> is U+2026, the horizontal ellipsis.\<close>

definition ellipsis :: ustr where
  "ellipsis = [8230]"

definition summarize :: "ustr \<Rightarrow> ustr" where
  "summarize raw_text =
     (let raw_text = strip raw_text
      in if length raw_text \<le> 50 then raw_text
         else rstrip (take 120 raw_text) @ ellipsis)"

text \<open>
  \<open>detect_category\<close> computes \<open>lowered = raw_text.lower()\<close> and never reads it:
  every keyword test is made on \<open>raw_text\<close> itself.
\<close>

definition detect_category :: "ustr \<Rightarrow> ustr" where
  "detect_category raw_text =
     (if list_ex (\<lambda>k. str_in k raw_text) MENTAL_KEYWORDS then u ''MENTAL_HEALTH''
      else if list_ex (\<lambda>k. str_in k raw_text) PENSION_KEYWORDS then u ''PENSION''
      else if list_ex (\<lambda>k. str_in k raw_text) FACILITY_KEYWORDS then u ''FACILITY''
      else u ''OTHER'')"

definition detect_severity :: "casemap \<Rightarrow> ustr \<Rightarrow> ustr \<Rightarrow> ustr" where
  "detect_severity lc raw_text category =
     (let normalized = lower lc raw_text
      in if list_ex (\<lambda>k. str_in k normalized) EMERGENCY_KEYWORDS then u ''EMERGENCY''
         else if category = u ''MENTAL_HEALTH'' \<and> str_in [55192, 46308] normalized
           then u ''NORMAL''
         else if length raw_text > 0 then u ''NORMAL'' else u ''LOW'')"

definition desc_facility_emergency :: ustr where
  "desc_facility_emergency = [45812, 45817, 51088, 44032, 32, 54788, 51109, 51012, 32,
     48169, 47928, 54616, 50668, 32, 50416, 47084, 51652, 32, 45208, 47924, 45208, 32,
     50948, 54744, 32, 50836, 49548, 47484, 32, 51593, 49884, 32, 54869, 51064, 54633,
     45768, 45796, 46]"

definition desc_facility :: ustr where
  "desc_facility = [49884, 49444, 32, 45812, 45817, 51088, 44032, 32, 54788, 51109, 51012,
     32, 54869, 51064, 54616, 44256, 32, 54596, 50836, 54620, 32, 51312, 52824, 47484, 32,
     51652, 54665, 54633, 45768, 45796, 46]"

definition desc_pension :: ustr where
  "desc_pension = [44397, 48124, 50672, 44552, 51060, 45208, 32, 48373, 51648, 32, 50504,
     45236, 47484, 32, 54869, 51064, 54620, 32, 46244, 32, 54596, 50836, 54620, 32, 51221,
     48372, 47484, 32, 50504, 45236, 46300, 47549, 45768, 45796, 46]"

definition desc_mental_emergency :: ustr where
  "desc_mental_emergency = [50948, 44592, 32, 51669, 54980, 44032, 32, 44048, 51648, 46104,
     50612, 32, 51204, 47928, 32, 49345, 45812, 32, 50672, 44208, 51012, 32, 46020, 50752,
     46300, 47549, 45768, 45796, 46]"

definition desc_mental :: ustr where
  "desc_mental = [49345, 45812, 49324, 47484, 32, 50672, 44208, 54616, 44144, 45208, 32,
     44032, 44620, 50868, 32, 51648, 50896, 32, 44592, 44288, 32, 50672, 46973, 52376,
     47484, 32, 50504, 45236, 46300, 47549, 45768, 45796, 46]"

definition desc_other :: ustr where
  "desc_other = [48124, 50896, 32, 45236, 50857, 51012, 32, 45812, 45817, 51088, 50640,
     44172, 32, 51204, 45804, 54616, 44256, 32, 52628, 44032, 32, 50504, 45236, 47484, 32,
     51228, 44277, 54633, 45768, 45796, 46]"

definition decide_handling :: "ustr \<Rightarrow> ustr \<Rightarrow> ustr \<times> ustr" where
  "decide_handling category severity =
     (if category = u ''FACILITY'' then
        (if severity = u ''EMERGENCY'' then (u ''ON_SITE_VISIT'', desc_facility_emergency)
         else (u ''ON_SITE_VISIT'', desc_facility))
      else if category = u ''PENSION'' then (u ''INFO_GUIDE'', desc_pension)
      else if category = u ''MENTAL_HEALTH'' then
        (if severity = u ''EMERGENCY'' then (u ''COUNSELOR_CONNECT'', desc_mental_emergency)
         else (u ''LISTENING_SUPPORT'', desc_mental))
      else (u ''INFO_GUIDE'', desc_other))"

definition analyze_text :: "casemap \<Rightarrow> ustr \<Rightarrow> AnalysisResult" where
  "analyze_text lc raw_text =
     (let category = detect_category raw_text;
          severity = detect_severity lc raw_text category;
          (handling_type, handling_desc) = decide_handling category severity
      in \<lparr>ar_summary_text = summarize raw_text, ar_category = category,
          ar_severity = severity, ar_handling_type = handling_type,
          ar_handling_desc = handling_desc\<rparr>)"

definition format_user_message :: "AnalysisResult \<Rightarrow> ustr" where
  "format_user_message result =
     [47568, 50432, 54644, 32, 51452, 49888, 32, 45236, 50857, 51008, 32, 39]
     @ ar_summary_text result @ [39, 47196, 32, 51221, 47532, 46104, 50632, 50612, 50836, 46, 32]
     @ [52852, 53580, 44256, 47532, 58, 32] @ ar_category result
     @ [44, 32, 44596, 44553, 46020, 58, 32] @ ar_severity result
     @ [32, 44592, 51456, 51004, 47196, 32]
     @ [52376, 47532, 32, 50976, 54805, 32, 39] @ ar_handling_type result
     @ [39, 51012, 32, 50504, 45236, 54633, 45768, 45796, 46]"


section \<open>database.py\<close>

text \<open>
  The SQLite database is a record of its tables, each the list of its rows in insertion
  order; every function takes the database and returns the new one. The table
  \<open>complaint_handling\<close> is created and never touched, and is left out. Each
  \<open>datetime.utcnow().isoformat()\<close> of the source is an argument \<open>now\<close>, the
  text it returned. The source never enables SQLite's foreign-key enforcement, so the
  \<open>FOREIGN KEY\<close> clauses check nothing; the \<open>UNIQUE\<close> constraint on
  \<open>conversation_session.session_uuid\<close> is the one constraint a call can violate.
\<close>

record session_row =
  s_session_uuid :: ustr
  s_started_at :: ustr
  s_ended_at :: "ustr option"
  s_debug_mode :: int
  s_status :: ustr

record complaint_row =
  c_id :: nat
  c_session_uuid :: ustr
  c_raw_text :: ustr
  c_summary_text :: ustr
  c_category :: ustr
  c_severity :: ustr
  c_handling_type :: ustr
  c_handling_desc :: "ustr option"
  c_is_confirmed :: int
  c_created_at :: ustr

text \<open>
  A log payload is a dictionary of JSON scalars. The row keeps the dictionary;
  its serialisation by \<open>json.dumps\<close> is not modelled.
\<close>

datatype jvalue = JBool bool | JInt int | JStr ustr

type_synonym jdict = "(ustr \<times> jvalue) list"

record log_entry_row =
  l_session_uuid :: ustr
  l_step :: ustr
  l_level :: ustr
  l_message :: ustr
  l_payload :: "jdict option"
  l_created_at :: ustr

record database =
  conversation_session :: "session_row list"
  complaint :: "complaint_row list"
  log_entry :: "log_entry_row list"

definition init_db :: database where
  "init_db = \<lparr>conversation_session = [], complaint = [], log_entry = []\<rparr>"

datatype db_error = IntegrityError

definition create_session :: "database \<Rightarrow> ustr \<Rightarrow> bool \<Rightarrow> ustr \<Rightarrow> db_error + database" where
  "create_session db session_uuid debug_mode now =
     (if list_ex (\<lambda>s. s_session_uuid s = session_uuid) (conversation_session db)
      then Inl IntegrityError
      else Inr (db\<lparr>conversation_session := conversation_session db @
             [\<lparr>s_session_uuid = session_uuid, s_started_at = now, s_ended_at = None,
               s_debug_mode = (if debug_mode then 1 else 0),
               s_status = u ''IN_PROGRESS''\<rparr>]\<rparr>))"

definition update_session_status :: "database \<Rightarrow> ustr \<Rightarrow> ustr \<Rightarrow> ustr \<Rightarrow> database" where
  "update_session_status db session_uuid status now =
     db\<lparr>conversation_session :=
          map (\<lambda>s. if s_session_uuid s = session_uuid
                   then s\<lparr>s_status := status, s_ended_at := Some now\<rparr> else s)
            (conversation_session db)\<rparr>"

text \<open>The request body of finalize (schemas.py).\<close>

record FinalizeRequest =
  fr_raw_text :: ustr
  fr_summary_text :: ustr
  fr_category :: ustr
  fr_severity :: ustr
  fr_handling_type :: ustr
  fr_handling_desc :: "ustr option"
  fr_is_confirmed :: bool

text \<open>
  Building a \<open>FinalizeRequest\<close> from a request body: \<open>handling_desc\<close> and
  \<open>is_confirmed\<close> may be left out (\<open>None\<close> here) and then take the defaults of the
  class, \<open>None\<close> and \<open>True\<close>.
\<close>

definition new_FinalizeRequest ::
  "ustr \<Rightarrow> ustr \<Rightarrow> ustr \<Rightarrow> ustr \<Rightarrow> ustr \<Rightarrow> ustr option \<Rightarrow> bool option \<Rightarrow> FinalizeRequest" where
  "new_FinalizeRequest raw_text summary_text category severity handling_type handling_desc
     is_confirmed =
     \<lparr>fr_raw_text = raw_text, fr_summary_text = summary_text, fr_category = category,
      fr_severity = severity, fr_handling_type = handling_type,
      fr_handling_desc = handling_desc,
      fr_is_confirmed = (case is_confirmed of None \<Rightarrow> True | Some b \<Rightarrow> b)\<rparr>"

text \<open>
  \<open>insert_complaint\<close> receives the dictionary
  \<open>{"session_uuid": session_uuid, **payload.model_dump()}\<close>, which holds every field
  of the request; it is passed here as the session identifier and the request. The
  identifier returned is \<open>lastrowid\<close> of an \<open>AUTOINCREMENT\<close> table from which
  no row is ever deleted.
\<close>

definition insert_complaint :: "database \<Rightarrow> ustr \<Rightarrow> FinalizeRequest \<Rightarrow> ustr \<Rightarrow> database \<times> nat" where
  "insert_complaint db session_uuid data now =
     (let complaint_id = length (complaint db) + 1
      in (db\<lparr>complaint := complaint db @
             [\<lparr>c_id = complaint_id, c_session_uuid = session_uuid,
               c_raw_text = fr_raw_text data, c_summary_text = fr_summary_text data,
               c_category = fr_category data, c_severity = fr_severity data,
               c_handling_type = fr_handling_type data,
               c_handling_desc = fr_handling_desc data,
               c_is_confirmed = (if fr_is_confirmed data then 1 else 0),
               c_created_at = now\<rparr>]\<rparr>, complaint_id))"

definition insert_log ::
  "database \<Rightarrow> ustr \<Rightarrow> ustr \<Rightarrow> ustr \<Rightarrow> ustr \<Rightarrow> jdict option \<Rightarrow> ustr \<Rightarrow> database" where
  "insert_log db session_uuid step level message payload now =
     db\<lparr>log_entry := log_entry db @
          [\<lparr>l_session_uuid = session_uuid, l_step = step, l_level = level,
            l_message = message, l_payload = payload, l_created_at = now\<rparr>]\<rparr>"

text \<open>
  A row as \<open>fetch_logs\<close> returns it: the five selected columns, without
  \<open>session_uuid\<close>. It is also the \<open>LogEntry\<close> of schemas.py.
\<close>

record LogEntry =
  le_step :: ustr
  le_level :: ustr
  le_message :: ustr
  le_payload :: "jdict option"
  le_created_at :: ustr

definition selected :: "log_entry_row \<Rightarrow> LogEntry" where
  "selected r = \<lparr>le_step = l_step r, le_level = l_level r, le_message = l_message r,
     le_payload = l_payload r, le_created_at = l_created_at r\<rparr>"

text \<open>
  \<open>if session_uuid:\<close> is false for \<open>None\<close> and for the empty string. \<open>ORDER BY
  created_at ASC\<close> compares the stored texts, code point by code point; SQLite leaves
  the order of rows with equal \<open>created_at\<close> open, and \<open>sort_key\<close> keeps them in
  insertion order.
\<close>

definition fetch_logs :: "database \<Rightarrow> ustr option \<Rightarrow> LogEntry list" where
  "fetch_logs db session_uuid =
     (let rows = (case session_uuid of
                    None \<Rightarrow> log_entry db
                  | Some sid \<Rightarrow> if sid \<noteq> []
                               then filter (\<lambda>r. l_session_uuid r = sid) (log_entry db)
                               else log_entry db)
      in map selected (sort_key l_created_at rows))"


section \<open>app.py\<close>

record ApiError =
  code :: ustr
  message :: ustr

record 'a ApiResponse =
  success :: bool
  data :: "'a option"
  error :: "ApiError option"

definition ok :: "'a \<Rightarrow> 'a ApiResponse" where
  "ok d = \<lparr>success = True, data = Some d, error = None\<rparr>"

definition fail :: "ustr \<Rightarrow> ustr \<Rightarrow> 'a ApiResponse" where
  "fail c m = \<lparr>success = False, data = None, error = Some \<lparr>code = c, message = m\<rparr>\<rparr>"

record StartResponse =
  sr_session_uuid :: ustr
  sr_status :: ustr

record FinalizeResponse =
  user_message :: ustr
  redirect :: ustr

text \<open>
  An endpoint that raises answers with an HTTP error and no envelope: the audio read
  of the STT endpoint (status 400), and the uncaught \<open>IntegrityError\<close> of a repeated
  session identifier (status 500).
\<close>

datatype http_error = HTTP400 ustr | HTTP500 db_error

text \<open>\<open>session_uuid\<close> is the value \<open>str(uuid.uuid4())\<close> drew.\<close>

definition start_conversation ::
  "database \<Rightarrow> ustr \<Rightarrow> bool \<Rightarrow> ustr \<Rightarrow> ustr \<Rightarrow> http_error + database \<times> StartResponse ApiResponse" where
  "start_conversation db session_uuid debug_mode now1 now2 =
     (case create_session db session_uuid debug_mode now1 of
        Inl e \<Rightarrow> Inl (HTTP500 e)
      | Inr db1 \<Rightarrow>
          Inr (insert_log db1 session_uuid (u ''SESSION'') (u ''INFO'')
                 [49352, 47196, 50868, 32, 49464, 49496, 51060, 32, 49373, 49457, 46104,
                  50632, 49845, 45768, 45796, 46]
                 (Some [(u ''debug_mode'', JBool debug_mode)]) now2,
               ok \<lparr>sr_session_uuid = session_uuid, sr_status = u ''IN_PROGRESS''\<rparr>))"

text \<open>
  \<open>audio\<close> is what the two external calls gave: \<open>Inl detail\<close> when reading the upload
  raised, \<open>Inr (size, raw_text)\<close> with the number of bytes read and the text returned
  by \<open>transcribe_audio\<close> otherwise.
\<close>

definition stt_conversation ::
  "database \<Rightarrow> ustr \<Rightarrow> ustr + nat \<times> ustr \<Rightarrow> ustr \<Rightarrow> http_error + database \<times> ustr ApiResponse" where
  "stt_conversation db session_uuid audio now =
     (case audio of
        Inl detail \<Rightarrow> Inl (HTTP400 detail)
      | Inr (size_bytes, raw_text) \<Rightarrow>
          Inr (insert_log db session_uuid (u ''STT'') (u ''INFO'')
                 [51020, 49457, 32, 51064, 49885, 51060, 32, 50756, 47308, 46104, 50632,
                  49845, 45768, 45796, 46]
                 (Some [(u ''raw_text'', JStr raw_text), (u ''size'', JInt (int size_bytes))])
                 now,
               ok raw_text))"

definition result_dict :: "AnalysisResult \<Rightarrow> jdict" where
  "result_dict r = [(u ''summary_text'', JStr (ar_summary_text r)),
     (u ''category'', JStr (ar_category r)), (u ''severity'', JStr (ar_severity r)),
     (u ''handling_type'', JStr (ar_handling_type r)),
     (u ''handling_desc'', JStr (ar_handling_desc r))]"

definition analyze_conversation ::
  "casemap \<Rightarrow> database \<Rightarrow> ustr \<Rightarrow> ustr \<Rightarrow> ustr \<Rightarrow> database \<times> AnalysisResult ApiResponse" where
  "analyze_conversation lc db session_uuid raw_text now =
     (if raw_text = [] then
        (db, fail (u ''INVALID_TEXT'')
               [48516, 49437, 54624, 32, 53581, 49828, 53944, 44032, 32, 50630, 49845,
                45768, 45796, 46])
      else
        (let result = analyze_text lc raw_text
         in (insert_log db session_uuid (u ''ANALYZE'') (u ''INFO'')
               [50836, 50557, 32, 48143, 32, 48516, 47448, 44032, 32, 50756, 47308, 46104,
                50632, 49845, 45768, 45796, 46]
               (Some (result_dict result)) now,
             ok result)))"

definition confirm_conversation ::
  "database \<Rightarrow> ustr \<Rightarrow> bool \<Rightarrow> ustr \<Rightarrow> database \<times> ustr ApiResponse" where
  "confirm_conversation db session_uuid is_confirmed now =
     (insert_log db session_uuid (u ''CONFIRM'') (u ''INFO'')
        [49324, 50857, 51088, 32, 54869, 51064, 32, 44208, 44284]
        (Some [(u ''is_confirmed'', JBool is_confirmed)]) now,
      ok (if is_confirmed then u ''SAVE_AND_NOTIFY'' else u ''RETRY''))"

definition finalize_conversation ::
  "database \<Rightarrow> ustr \<Rightarrow> FinalizeRequest \<Rightarrow> ustr \<Rightarrow> ustr \<Rightarrow> ustr
     \<Rightarrow> database \<times> FinalizeResponse ApiResponse" where
  "finalize_conversation db session_uuid payload now1 now2 now3 =
     (let (db1, complaint_id) = insert_complaint db session_uuid payload now1;
          db2 = update_session_status db1 session_uuid (u ''COMPLETED'') now2;
          db3 = insert_log db2 session_uuid (u ''DB_SAVE'') (u ''INFO'')
                  [48124, 50896, 51060, 32, 51200, 51109, 46104, 50632, 49845, 45768,
                   45796, 46]
                  (Some [(u ''complaint_id'', JInt (int complaint_id))]) now3;
          user_message = format_user_message
            \<lparr>ar_summary_text = fr_summary_text payload, ar_category = fr_category payload,
             ar_severity = fr_severity payload, ar_handling_type = fr_handling_type payload,
             ar_handling_desc = (case fr_handling_desc payload of None \<Rightarrow> [] | Some d \<Rightarrow> d)\<rparr>
      in (db3, ok \<lparr>user_message = user_message, redirect = u ''MAIN''\<rparr>))"

definition list_logs :: "database \<Rightarrow> ustr option \<Rightarrow> LogEntry list ApiResponse" where
  "list_logs db session_uuid = ok (fetch_logs db session_uuid)"

text \<open>
  The requests the service accepts, each with the clock readings and external results
  its handler consumes, and the database each leaves behind. A handler that raises
  leaves the database as it was.
\<close>

datatype request =
    Start ustr bool ustr ustr
  | Stt ustr "ustr + nat \<times> ustr" ustr
  | Analyze ustr ustr ustr
  | Confirm ustr bool ustr
  | Finalize ustr FinalizeRequest ustr ustr ustr
  | ListLogs "ustr option"

fun handle :: "casemap \<Rightarrow> database \<Rightarrow> request \<Rightarrow> database" where
  "handle lc db (Start sid debug_mode now1 now2) =
     (case start_conversation db sid debug_mode now1 now2 of
        Inl e \<Rightarrow> db | Inr (db', r) \<Rightarrow> db')"
| "handle lc db (Stt sid audio now) =
     (case stt_conversation db sid audio now of Inl e \<Rightarrow> db | Inr (db', r) \<Rightarrow> db')"
| "handle lc db (Analyze sid raw_text now) = fst (analyze_conversation lc db sid raw_text now)"
| "handle lc db (Confirm sid is_confirmed now) =
     fst (confirm_conversation db sid is_confirmed now)"
| "handle lc db (Finalize sid payload now1 now2 now3) =
     fst (finalize_conversation db sid payload now1 now2 now3)"
| "handle lc db (ListLogs sid) = db"

definition run :: "casemap \<Rightarrow> database \<Rightarrow> request list \<Rightarrow> database" where
  "run lc db reqs = foldl (handle lc) db reqs"

section \<open>Properties of the session table\<close>

text \<open>The rows of \<open>conversation_session\<close> that carry a given session identifier.\<close>

definition rows_of :: "database \<Rightarrow> ustr \<Rightarrow> session_row list" where
  "rows_of db sid = filter (\<lambda>s. s_session_uuid s = sid) (conversation_session db)"

text \<open>
  The invariant of the data model: a row has \<open>ended_at\<close> exactly when its status is
  the terminal \<open>COMPLETED\<close>.
\<close>

definition row_ok :: "session_row \<Rightarrow> bool" where
  "row_ok s = ((s_ended_at s \<noteq> None) = (s_status s = u ''COMPLETED''))"

definition session_inv :: "database \<Rightarrow> bool" where
  "session_inv db = list_all row_ok (conversation_session db)"

text \<open>A row before and after \<open>complete\<close>.\<close>

definition row_open :: "session_row \<Rightarrow> bool" where
  "row_open s = (s_ended_at s = None \<and> s_status s = u ''IN_PROGRESS'')"

definition row_closed :: "session_row \<Rightarrow> bool" where
  "row_closed s = (s_ended_at s \<noteq> None \<and> s_status s = u ''COMPLETED'')"

text \<open>A request that invokes \<open>complete\<close> for the session \<open>sid\<close>.\<close>

fun finalizes :: "ustr \<Rightarrow> request \<Rightarrow> bool" where
  "finalizes sid (Finalize sid' payload now1 now2 now3) = (sid' = sid)"
| "finalizes sid r = False"


section \<open>Example inputs\<close>

text \<open>
  Two pension keywords and the mental-health keyword for counselling;
  the street-lamp scenario of the specification; two letters followed by 49 spaces;
  119 letters, a space and ten more letters. A finalize request with
  \<open>is_confirmed = false\<close>; the database after one start request; that database
  after a confirm request of another session whose clock reading is earlier; and a
  start request followed by a confirm request.
\<close>

definition text_pension_counsel :: ustr where
  "text_pension_counsel = [44397, 48124, 50672, 44552, 32, 44592, 52488, 50672, 44552, 32,
     49345, 45812]"

definition text_streetlamp :: ustr where
  "text_streetlamp = [44032, 47196, 46321, 51060, 32, 50416, 47084, 51256, 32, 51080, 50612,
     49436, 32, 50948, 54744, 54644, 50836]"

definition text_padded :: ustr where
  "text_padded = [104, 105] @ replicate 49 32"

definition text_long :: ustr where
  "text_long = replicate 119 97 @ [32] @ replicate 10 98"

definition payload_unconfirmed :: FinalizeRequest where
  "payload_unconfirmed =
     new_FinalizeRequest text_streetlamp text_streetlamp (u ''FACILITY'') (u ''EMERGENCY'')
       (u ''ON_SITE_VISIT'') None (Some False)"

definition db_one_session :: database where
  "db_one_session =
     handle ascii_lower init_db (Start (u ''s1'') False (u ''2024-05-01T09:00:00'')
       (u ''2024-05-01T09:00:01''))"

definition db_two_logs :: database where
  "db_two_logs =
     handle ascii_lower db_one_session (Confirm (u ''s2'') True (u ''2024-05-01T08:00:00''))"

definition requests_open :: "request list" where
  "requests_open =
     [Start (u ''s1'') False (u ''2024-05-01T09:00:00'') (u ''2024-05-01T09:00:01''),
      Confirm (u ''s1'') True (u ''2024-05-01T09:00:02'')]"


section \<open>Facts about the string constants\<close>

lemma u_simps: "u [] = []" "u (c # s) = of_char c # u s"
  by (simp_all add: u_def)

lemma desc_nonempty:
  "desc_facility_emergency \<noteq> []" "desc_facility \<noteq> []" "desc_pension \<noteq> []"
  "desc_mental_emergency \<noteq> []" "desc_mental \<noteq> []" "desc_other \<noteq> []"
  by (simp_all add: desc_facility_emergency_def desc_facility_def desc_pension_def
      desc_mental_emergency_def desc_mental_def desc_other_def)

lemma desc_facility_distinct: "desc_facility_emergency \<noteq> desc_facility"
  by (simp add: desc_facility_emergency_def desc_facility_def)

lemma labels_distinct:
  "u ''FACILITY'' \<noteq> u ''PENSION''" "u ''FACILITY'' \<noteq> u ''MENTAL_HEALTH''"
  "u ''PENSION'' \<noteq> u ''MENTAL_HEALTH''" "u ''PENSION'' \<noteq> u ''FACILITY''"
  "u ''MENTAL_HEALTH'' \<noteq> u ''FACILITY''" "u ''MENTAL_HEALTH'' \<noteq> u ''PENSION''"
  by (simp_all add: u_simps)


section \<open>The handling table\<close>

text \<open>
  C1. \<open>decide_handling\<close> is a fixed table on (category, severity): \<open>FACILITY\<close>
  gives \<open>ON_SITE_VISIT\<close> for every severity, with one description for severity
  \<open>EMERGENCY\<close> and a different one otherwise; \<open>PENSION\<close> gives \<open>INFO_GUIDE\<close>;
  \<open>MENTAL_HEALTH\<close> gives \<open>COUNSELOR_CONNECT\<close> for \<open>EMERGENCY\<close> and
  \<open>LISTENING_SUPPORT\<close> otherwise; every other category gives \<open>INFO_GUIDE\<close> with
  the generic forwarding description; and the description is never empty.
\<close>

theorem decide_handling_table:
  "(category = u ''FACILITY'' \<longrightarrow>
      fst (decide_handling category severity) = u ''ON_SITE_VISIT'' \<and>
      snd (decide_handling category severity) =
        (if severity = u ''EMERGENCY'' then desc_facility_emergency else desc_facility)) \<and>
   desc_facility_emergency \<noteq> desc_facility \<and>
   (category = u ''PENSION'' \<longrightarrow>
      decide_handling category severity = (u ''INFO_GUIDE'', desc_pension)) \<and>
   (category = u ''MENTAL_HEALTH'' \<longrightarrow>
      decide_handling category severity =
        (if severity = u ''EMERGENCY'' then (u ''COUNSELOR_CONNECT'', desc_mental_emergency)
         else (u ''LISTENING_SUPPORT'', desc_mental))) \<and>
   (category \<noteq> u ''FACILITY'' \<and> category \<noteq> u ''PENSION'' \<and> category \<noteq> u ''MENTAL_HEALTH'' \<longrightarrow>
      decide_handling category severity = (u ''INFO_GUIDE'', desc_other)) \<and>
   snd (decide_handling category severity) \<noteq> []"
  using labels_distinct desc_nonempty desc_facility_distinct
  by (simp add: decide_handling_def)

theorem decide_handling_table_witness:
  "decide_handling (u ''FACILITY'') (u ''EMERGENCY'') = (u ''ON_SITE_VISIT'', desc_facility_emergency) \<and>
   decide_handling (u ''FACILITY'') (u ''LOW'') = (u ''ON_SITE_VISIT'', desc_facility) \<and>
   decide_handling (u ''PENSION'') (u ''NORMAL'') = (u ''INFO_GUIDE'', desc_pension) \<and>
   decide_handling (u ''MENTAL_HEALTH'') (u ''EMERGENCY'') = (u ''COUNSELOR_CONNECT'', desc_mental_emergency) \<and>
   decide_handling (u ''MENTAL_HEALTH'') (u ''NORMAL'') = (u ''LISTENING_SUPPORT'', desc_mental) \<and>
   decide_handling (u ''OTHER'') (u ''NORMAL'') = (u ''INFO_GUIDE'', desc_other)"
  using decide_handling_table [of "u ''FACILITY''" "u ''EMERGENCY''"]
    decide_handling_table [of "u ''FACILITY''" "u ''LOW''"]
    decide_handling_table [of "u ''PENSION''" "u ''NORMAL''"]
    decide_handling_table [of "u ''MENTAL_HEALTH''" "u ''EMERGENCY''"]
    decide_handling_table [of "u ''MENTAL_HEALTH''" "u ''NORMAL''"]
    decide_handling_table [of "u ''OTHER''" "u ''NORMAL''"]
  by (simp add: u_simps prod_eq_iff)

section \<open>Substring tests\<close>

lemma starts_with_iff: "starts_with k s \<longleftrightarrow> (\<exists>ss. s = k @ ss)"
proof
  assume "starts_with k s"
  then have "s = k @ drop (length k) s"
    unfolding starts_with_def by (metis append_take_drop_id)
  then show "\<exists>ss. s = k @ ss" ..
next
  assume "\<exists>ss. s = k @ ss"
  then show "starts_with k s" by (auto simp: starts_with_def)
qed

lemma str_in_contains: "str_in k s \<longleftrightarrow> contains s k"
proof (induction s)
  case Nil
  then show ?case by (auto simp: contains_def)
next
  case (Cons c s)
  have "contains (c # s) k \<longleftrightarrow> (\<exists>ss. c # s = k @ ss) \<or> contains s k"
  proof
    assume "contains (c # s) k"
    then obtain ps ss where eq: "c # s = ps @ k @ ss" by (auto simp: contains_def)
    show "(\<exists>ss. c # s = k @ ss) \<or> contains s k"
    proof (cases ps)
      case Nil
      with eq show ?thesis by auto
    next
      case (Cons p ps')
      with eq have "s = ps' @ k @ ss" by simp
      then show ?thesis by (auto simp: contains_def)
    qed
  next
    assume "(\<exists>ss. c # s = k @ ss) \<or> contains s k"
    then show "contains (c # s) k"
    proof
      assume "\<exists>ss. c # s = k @ ss"
      then obtain ss where "c # s = [] @ k @ ss" by auto
      then show ?thesis unfolding contains_def by blast
    next
      assume "contains s k"
      then obtain ps ss where "s = ps @ k @ ss" by (auto simp: contains_def)
      then have "c # s = (c # ps) @ k @ ss" by simp
      then show ?thesis unfolding contains_def by blast
    qed
  qed
  with Cons show ?case by (simp add: starts_with_iff)
qed

lemma list_ex_matches: "list_ex (\<lambda>k. str_in k s) ks \<longleftrightarrow> matches ks s"
  by (simp add: matches_def list_ex_iff str_in_contains)


section \<open>Category detection\<close>

text \<open>
  C2. \<open>detect_category\<close> tests the keyword sets by substring containment in the
  order mental health, pension, facility, and returns the category of the first set
  with a keyword in the text, \<open>OTHER\<close> when none has one; a text with keywords of
  several sets gets the category that comes first, however many keywords of a later
  set it holds.
\<close>

theorem detect_category_priority:
  "(matches MENTAL_KEYWORDS t \<longrightarrow> detect_category t = u ''MENTAL_HEALTH'') \<and>
   (\<not> matches MENTAL_KEYWORDS t \<and> matches PENSION_KEYWORDS t \<longrightarrow>
      detect_category t = u ''PENSION'') \<and>
   (\<not> matches MENTAL_KEYWORDS t \<and> \<not> matches PENSION_KEYWORDS t \<and>
    matches FACILITY_KEYWORDS t \<longrightarrow> detect_category t = u ''FACILITY'') \<and>
   (\<not> matches MENTAL_KEYWORDS t \<and> \<not> matches PENSION_KEYWORDS t \<and>
    \<not> matches FACILITY_KEYWORDS t \<longrightarrow> detect_category t = u ''OTHER'')"
  by (simp add: detect_category_def list_ex_matches)

theorem detect_category_priority_witness:
  "matches MENTAL_KEYWORDS text_pension_counsel \<and>
   matches PENSION_KEYWORDS text_pension_counsel \<and>
   detect_category text_pension_counsel = u ''MENTAL_HEALTH'' \<and>
   \<not> matches MENTAL_KEYWORDS text_streetlamp \<and>
   \<not> matches PENSION_KEYWORDS text_streetlamp \<and>
   matches FACILITY_KEYWORDS text_streetlamp \<and>
   detect_category text_streetlamp = u ''FACILITY''"
proof -
  have m: "matches MENTAL_KEYWORDS text_pension_counsel"
    unfolding list_ex_matches [symmetric]
    by (simp add: MENTAL_KEYWORDS_def text_pension_counsel_def starts_with_def)
  have p: "matches PENSION_KEYWORDS text_pension_counsel"
    unfolding list_ex_matches [symmetric]
    by (simp add: PENSION_KEYWORDS_def text_pension_counsel_def starts_with_def)
  have m': "\<not> matches MENTAL_KEYWORDS text_streetlamp"
    unfolding list_ex_matches [symmetric]
    by (simp add: MENTAL_KEYWORDS_def text_streetlamp_def starts_with_def)
  have p': "\<not> matches PENSION_KEYWORDS text_streetlamp"
    unfolding list_ex_matches [symmetric]
    by (simp add: PENSION_KEYWORDS_def text_streetlamp_def starts_with_def)
  have f': "matches FACILITY_KEYWORDS text_streetlamp"
    unfolding list_ex_matches [symmetric]
    by (simp add: FACILITY_KEYWORDS_def text_streetlamp_def starts_with_def)
  show ?thesis
    using m p m' p' f' detect_category_priority [of text_pension_counsel]
      detect_category_priority [of text_streetlamp]
    by simp
qed


section \<open>Severity detection\<close>

lemma lower_from_fixed:
  "\<forall>b c r. hangul_syllable c \<longrightarrow> lc b c r = [c] \<Longrightarrow> list_all hangul_syllable k \<Longrightarrow>
   lower_from lc b (k @ ss) = k @ lower_from lc (b @ k) ss"
  by (induction k arbitrary: b) simp_all

lemma lower_from_prefix:
  "\<exists>pre. lower_from lc b (ps @ rest) = pre @ lower_from lc (b @ ps) rest"
proof (induction ps arbitrary: b)
  case Nil
  then show ?case by simp
next
  case (Cons p ps)
  from Cons [of "b @ [p]"] obtain pre
    where "lower_from lc (b @ [p]) (ps @ rest) = pre @ lower_from lc (b @ p # ps) rest"
    by auto
  then have "lower_from lc b ((p # ps) @ rest)
      = (lc b p (ps @ rest) @ pre) @ lower_from lc (b @ p # ps) rest"
    by simp
  then show ?case by blast
qed

lemma contains_lower:
  assumes "\<forall>b c r. hangul_syllable c \<longrightarrow> lc b c r = [c]" and "list_all hangul_syllable k"
    and "contains t k"
  shows "contains (lower lc t) k"
proof -
  from assms(3) obtain ps ss where t: "t = ps @ k @ ss" by (auto simp: contains_def)
  obtain pre where "lower_from lc [] (ps @ k @ ss) = pre @ lower_from lc ([] @ ps) (k @ ss)"
    using lower_from_prefix by blast
  then have "lower lc t = pre @ k @ lower_from lc (ps @ k) ss"
    using t by (simp add: lower_def lower_from_fixed [OF assms(1,2)])
  then show ?thesis unfolding contains_def by blast
qed

lemma emergency_hangul: "\<forall>k \<in> set EMERGENCY_KEYWORDS. list_all hangul_syllable k"
  by (simp add: EMERGENCY_KEYWORDS_def hangul_syllable_def)

lemma matches_lower:
  assumes "\<forall>b c r. hangul_syllable c \<longrightarrow> lc b c r = [c]" and "matches EMERGENCY_KEYWORDS t"
  shows "matches EMERGENCY_KEYWORDS (lower lc t)"
  using assms emergency_hangul contains_lower unfolding matches_def by blast

lemma ascii_lower_hangul: "\<forall>b c r. hangul_syllable c \<longrightarrow> ascii_lower b c r = [c]"
  by (simp add: hangul_syllable_def ascii_lower_def)

text \<open>
  C3. A text that contains an emergency keyword gets severity \<open>EMERGENCY\<close> from
  \<open>analyze_text\<close>, and from \<open>detect_severity\<close> whatever category is passed. The
  keywords are looked for in \<open>raw_text.lower()\<close>; the one fact used about the case
  table is that it leaves Hangul syllables as they are.
\<close>

theorem emergency_keyword_severity:
  assumes "\<forall>b c r. hangul_syllable c \<longrightarrow> lc b c r = [c]"
    and "matches EMERGENCY_KEYWORDS t"
  shows "ar_severity (analyze_text lc t) = u ''EMERGENCY'' \<and>
         detect_severity lc t category = u ''EMERGENCY''"
proof -
  have "detect_severity lc t c = u ''EMERGENCY''" for c
    using matches_lower [OF assms] by (simp add: detect_severity_def Let_def list_ex_matches)
  then show ?thesis by (simp add: analyze_text_def Let_def split: prod.splits)
qed

theorem emergency_keyword_severity_witness:
  "matches EMERGENCY_KEYWORDS text_streetlamp \<and>
   ar_severity (analyze_text ascii_lower text_streetlamp) = u ''EMERGENCY'' \<and>
   detect_severity ascii_lower text_streetlamp (u ''PENSION'') = u ''EMERGENCY''"
proof -
  have m: "matches EMERGENCY_KEYWORDS text_streetlamp"
    unfolding list_ex_matches [symmetric]
    by (simp add: EMERGENCY_KEYWORDS_def text_streetlamp_def starts_with_def)
  show ?thesis
    using m emergency_keyword_severity [OF ascii_lower_hangul m, of "u ''PENSION''"]
    by simp
qed

section \<open>Summaries\<close>

lemma rstrip_split: "\<exists>ws. s = rstrip s @ ws \<and> list_all is_space ws"
proof -
  have "rev s = takeWhile is_space (rev s) @ dropWhile is_space (rev s)" by simp
  then have "s = rev (dropWhile is_space (rev s)) @ rev (takeWhile is_space (rev s))"
    by (metis rev_append rev_rev_ident)
  moreover have "list_all is_space (rev (takeWhile is_space (rev s)))"
    by (simp add: list_all_iff) (meson set_takeWhileD)
  ultimately show ?thesis unfolding rstrip_def by blast
qed

lemma rstrip_last: "rstrip s \<noteq> [] \<Longrightarrow> \<not> is_space (last (rstrip s))"
  unfolding rstrip_def by (simp add: last_rev hd_dropWhile)

lemma length_rstrip: "length (rstrip s) \<le> length s"
  unfolding rstrip_def by (simp add: length_dropWhile_le [of is_space "rev s", simplified])

lemma is_space_simps:
  "is_space 32" "\<not> is_space 104" "\<not> is_space 105" "\<not> is_space 97" "\<not> is_space 98"
  by (simp_all add: is_space_def)

lemma strip_padded: "strip text_padded = [104, 105]"
  by (simp add: text_padded_def strip_def lstrip_def rstrip_def is_space_simps
      dropWhile_append)

lemma strip_long: "strip text_long = text_long"
  by (simp add: text_long_def strip_def lstrip_def rstrip_def is_space_simps
      dropWhile_append)

lemma rstrip_take_long: "rstrip (take 120 text_long) = replicate 119 97"
  by (simp add: text_long_def rstrip_def is_space_simps)

text \<open>
  C4. When the trimmed text has at most 50 characters, \<open>summarize\<close> returns the
  trimmed text as it is. When it has more, \<open>summarize\<close> returns the first 120
  characters of the trimmed text without their trailing whitespace, followed by the
  ellipsis: the cut is at character 120 wherever that falls, and what is removed after
  the cut is whitespace only.
\<close>

theorem summarize_cases:
  "(length (strip t) \<le> 50 \<longrightarrow> summarize t = strip t) \<and>
   (50 < length (strip t) \<longrightarrow>
      summarize t = rstrip (take 120 (strip t)) @ ellipsis \<and>
      (\<exists>ws. take 120 (strip t) = rstrip (take 120 (strip t)) @ ws \<and> list_all is_space ws) \<and>
      (rstrip (take 120 (strip t)) \<noteq> [] \<longrightarrow>
         \<not> is_space (last (rstrip (take 120 (strip t))))))"
  using rstrip_split [of "take 120 (strip t)"] rstrip_last [of "take 120 (strip t)"]
  by (simp add: summarize_def Let_def)

theorem summarize_cases_witness:
  "length (strip text_padded) \<le> 50 \<and> summarize text_padded = [104, 105] \<and>
   50 < length (strip text_long) \<and> summarize text_long = replicate 119 97 @ ellipsis"
proof -
  have "length (strip text_long) = 130" by (simp add: strip_long) (simp add: text_long_def)
  then show ?thesis
    using summarize_cases [of text_padded] summarize_cases [of text_long]
    by (simp add: strip_padded strip_long rstrip_take_long)
qed

text \<open>
  C5, as stated: every input longer than 50 characters gets a summary that ends with
  the ellipsis. It fails on two letters followed by 49 spaces: the input has 51
  characters, its trimmed text has two, and the summary is the two letters.
\<close>

theorem summarize_long_input_counterexample:
  "50 < length text_padded \<and> summarize text_padded = [104, 105] \<and>
   \<not> ends_with ellipsis (summarize text_padded)"
  by (simp add: summarize_def Let_def strip_padded ends_with_def ellipsis_def)
    (simp add: text_padded_def)

text \<open>
  C5, amended: for every input whose trimmed text is longer than 50 characters, the
  summary ends with the ellipsis and what comes before the ellipsis has at most 120
  characters.
\<close>

theorem summarize_ellipsis:
  assumes "50 < length (strip t)"
  shows "ends_with ellipsis (summarize t) \<and>
         (\<exists>body. summarize t = body @ ellipsis \<and> length body \<le> 120)"
proof -
  let ?body = "rstrip (take 120 (strip t))"
  have s: "summarize t = ?body @ ellipsis" using assms by (simp add: summarize_def Let_def)
  have "length ?body \<le> length (take 120 (strip t))" by (rule length_rstrip)
  then have l: "length ?body \<le> 120" by simp
  have "ends_with ellipsis (?body @ ellipsis)" by (simp add: ends_with_def)
  with s l show ?thesis by auto
qed

theorem summarize_ellipsis_witness:
  "50 < length (strip text_long) \<and> ends_with ellipsis (summarize text_long)"
proof -
  have h: "50 < length (strip text_long)" by (simp add: strip_long) (simp add: text_long_def)
  show ?thesis using h summarize_ellipsis [OF h] by simp
qed

section \<open>The analyze endpoint\<close>

text \<open>
  C6. An analyze request with empty \<open>raw_text\<close> is answered with
  \<open>success = False\<close>, no data and the error code \<open>INVALID_TEXT\<close>, and leaves the
  database as it was: nothing is analysed and no log entry is written. A request with
  any non-empty \<open>raw_text\<close> is answered with \<open>success = True\<close>, no error and the
  five fields of the analysis of that text, and appends one \<open>ANALYZE\<close> log entry.
\<close>

theorem analyze_endpoint:
  "(raw_text = [] \<longrightarrow>
      fst (analyze_conversation lc db sid raw_text now) = db \<and>
      success (snd (analyze_conversation lc db sid raw_text now)) = False \<and>
      data (snd (analyze_conversation lc db sid raw_text now)) = None \<and>
      map_option code (error (snd (analyze_conversation lc db sid raw_text now)))
        = Some (u ''INVALID_TEXT'')) \<and>
   (raw_text \<noteq> [] \<longrightarrow>
      success (snd (analyze_conversation lc db sid raw_text now)) = True \<and>
      data (snd (analyze_conversation lc db sid raw_text now))
        = Some (analyze_text lc raw_text) \<and>
      error (snd (analyze_conversation lc db sid raw_text now)) = None \<and>
      map l_step (log_entry (fst (analyze_conversation lc db sid raw_text now)))
        = map l_step (log_entry db) @ [u ''ANALYZE''])"
  by (simp add: analyze_conversation_def fail_def ok_def insert_log_def Let_def)

theorem analyze_endpoint_witness:
  "fst (analyze_conversation ascii_lower init_db (u ''s1'') [] (u ''2024-05-01T09:00:02''))
     = init_db \<and>
   \<not> success (snd (analyze_conversation ascii_lower init_db (u ''s1'') []
     (u ''2024-05-01T09:00:02''))) \<and>
   text_streetlamp \<noteq> [] \<and>
   data (snd (analyze_conversation ascii_lower init_db (u ''s1'') text_streetlamp
     (u ''2024-05-01T09:00:02''))) = Some (analyze_text ascii_lower text_streetlamp)"
  using analyze_endpoint [of "[]" ascii_lower init_db "u ''s1''" "u ''2024-05-01T09:00:02''"]
    analyze_endpoint [of text_streetlamp ascii_lower init_db "u ''s1''"
      "u ''2024-05-01T09:00:02''"]
  by (simp add: text_streetlamp_def)


section \<open>Unknown session identifiers\<close>

lemma sessions_insert_log [simp]:
  "conversation_session (insert_log db sid st lv m p now) = conversation_session db"
  by (simp add: insert_log_def)





section \<open>The session life cycle\<close>

lemma rows_of_insert_log [simp]: "rows_of (insert_log db sid st lv m p now) x = rows_of db x"
  by (simp add: rows_of_def)

lemma sessions_finalize:
  "conversation_session (fst (finalize_conversation db sid payload now1 now2 now3)) =
     map (\<lambda>s. if s_session_uuid s = sid
               then s\<lparr>s_status := u ''COMPLETED'', s_ended_at := Some now2\<rparr> else s)
       (conversation_session db)"
  by (simp add: finalize_conversation_def Let_def update_session_status_def
      insert_complaint_def split: prod.splits)

lemma filter_update_rows:
  "filter (\<lambda>s. s_session_uuid s = x)
     (map (\<lambda>s. if s_session_uuid s = sid
               then s\<lparr>s_status := st, s_ended_at := e\<rparr> else s) xs) =
   (if x = sid
    then map (\<lambda>s. s\<lparr>s_status := st, s_ended_at := e\<rparr>) (filter (\<lambda>s. s_session_uuid s = x) xs)
    else filter (\<lambda>s. s_session_uuid s = x) xs)"
  by (induction xs) auto

lemma rows_of_finalize:
  "rows_of (fst (finalize_conversation db sid payload now1 now2 now3)) x =
     (if x = sid
      then map (\<lambda>s. s\<lparr>s_status := u ''COMPLETED'', s_ended_at := Some now2\<rparr>) (rows_of db x)
      else rows_of db x)"
  unfolding rows_of_def sessions_finalize by (rule filter_update_rows)

lemma rows_of_start:
  "rows_of (handle lc db (Start sid d now1 now2)) x =
     (if x = sid \<and> rows_of db x = []
      then [\<lparr>s_session_uuid = sid, s_started_at = now1, s_ended_at = None,
             s_debug_mode = (if d then 1 else 0), s_status = u ''IN_PROGRESS''\<rparr>]
      else rows_of db x)"
  by (auto simp: start_conversation_def create_session_def rows_of_def list_ex_iff
      filter_empty_conv split: sum.splits)

lemma rows_of_others:
  "rows_of (handle lc db (Stt sid audio now)) x = rows_of db x"
  "rows_of (handle lc db (Analyze sid raw_text now)) x = rows_of db x"
  "rows_of (handle lc db (Confirm sid c now)) x = rows_of db x"
  "rows_of (handle lc db (ListLogs f)) x = rows_of db x"
  by (auto simp: stt_conversation_def analyze_conversation_def confirm_conversation_def
      Let_def split: sum.splits prod.splits)

lemma rows_of_handle_finalize:
  "rows_of (handle lc db (Finalize sid payload now1 now2 now3)) x =
     (if x = sid
      then map (\<lambda>s. s\<lparr>s_status := u ''COMPLETED'', s_ended_at := Some now2\<rparr>) (rows_of db x)
      else rows_of db x)"
  by (simp add: rows_of_finalize)

lemma session_inv_rows: "session_inv db \<longleftrightarrow> (\<forall>x. list_all row_ok (rows_of db x))"
  unfolding session_inv_def rows_of_def list_all_iff by auto

lemma in_progress_not_completed: "u ''IN_PROGRESS'' \<noteq> u ''COMPLETED''"
  by (simp add: u_simps)

lemma inv_handle: "session_inv db \<Longrightarrow> session_inv (handle lc db r)"
  unfolding session_inv_rows
  by (cases r)
    (auto simp del: handle.simps simp: rows_of_start rows_of_others rows_of_handle_finalize
      row_ok_def list_all_iff in_progress_not_completed)

lemma inv_run: "session_inv db \<Longrightarrow> session_inv (run lc db reqs)"
  unfolding run_def by (induction reqs arbitrary: db) (simp_all add: inv_handle)

lemma inv_init: "session_inv init_db"
  by (simp add: session_inv_def init_db_def)

lemma open_handle:
  "\<not> finalizes sid r \<Longrightarrow> list_all row_open (rows_of db sid) \<Longrightarrow>
   list_all row_open (rows_of (handle lc db r) sid)"
  by (cases r)
    (auto simp del: handle.simps simp: rows_of_start rows_of_others rows_of_handle_finalize
      row_open_def)

lemma open_run:
  "list_all (\<lambda>r. \<not> finalizes sid r) reqs \<Longrightarrow> list_all row_open (rows_of db sid) \<Longrightarrow>
   list_all row_open (rows_of (run lc db reqs) sid)"
  unfolding run_def by (induction reqs arbitrary: db) (simp_all add: open_handle)

lemma closed_handle:
  "rows_of db sid \<noteq> [] \<and> list_all row_closed (rows_of db sid) \<Longrightarrow>
   rows_of (handle lc db r) sid \<noteq> [] \<and> list_all row_closed (rows_of (handle lc db r) sid)"
  by (cases r)
    (auto simp del: handle.simps simp: rows_of_start rows_of_others rows_of_handle_finalize
      list_all_iff row_closed_def)

lemma closed_run:
  "rows_of db sid \<noteq> [] \<and> list_all row_closed (rows_of db sid) \<Longrightarrow>
   rows_of (run lc db reqs) sid \<noteq> [] \<and> list_all row_closed (rows_of (run lc db reqs) sid)"
  unfolding run_def
proof (induction reqs arbitrary: db)
  case Nil
  then show ?case by simp
next
  case (Cons r reqs)
  from closed_handle [OF Cons.prems] Cons.IH [of "handle lc db r"] show ?case by simp
qed

text \<open>
  C8. The invariant "\<open>ended_at\<close> is set exactly when the status is \<open>COMPLETED\<close>"
  holds in every database reached from the empty one by any sequence of requests. A
  session for which no finalize request was made has \<open>ended_at\<close> null and status
  \<open>IN_PROGRESS\<close>; once finalize has run for an existing session, its \<open>ended_at\<close>
  is set and its status is \<open>COMPLETED\<close>, whatever requests follow.
\<close>

theorem ended_at_iff_completed:
  "session_inv (run lc init_db reqs) \<and>
   (list_all (\<lambda>r. \<not> finalizes sid r) reqs \<longrightarrow>
      list_all row_open (rows_of (run lc init_db reqs) sid)) \<and>
   (rows_of db sid \<noteq> [] \<longrightarrow>
      rows_of (run lc (handle lc db (Finalize sid payload now1 now2 now3)) reqs) sid \<noteq> [] \<and>
      list_all row_closed
        (rows_of (run lc (handle lc db (Finalize sid payload now1 now2 now3)) reqs) sid))"
proof -
  have a: "session_inv (run lc init_db reqs)" by (rule inv_run [OF inv_init])
  have b: "list_all row_open (rows_of (run lc init_db reqs) sid)"
    if "list_all (\<lambda>r. \<not> finalizes sid r) reqs"
    using open_run [OF that, of init_db lc] by (simp add: rows_of_def init_db_def)
  have c: "rows_of (run lc (handle lc db (Finalize sid payload now1 now2 now3)) reqs) sid \<noteq> [] \<and>
      list_all row_closed
        (rows_of (run lc (handle lc db (Finalize sid payload now1 now2 now3)) reqs) sid)"
    if "rows_of db sid \<noteq> []"
    by (rule closed_run) (use that in \<open>simp add: list_all_iff rows_of_finalize row_closed_def\<close>)
  from a b c show ?thesis by blast
qed

lemma rows_one_session:
  "rows_of db_one_session (u ''s1'') =
     [\<lparr>s_session_uuid = u ''s1'', s_started_at = u ''2024-05-01T09:00:00'', s_ended_at = None,
       s_debug_mode = 0, s_status = u ''IN_PROGRESS''\<rparr>]"
  unfolding db_one_session_def by (simp add: rows_of_start del: handle.simps) (simp add: rows_of_def init_db_def)

theorem ended_at_iff_completed_witness:
  "list_all (\<lambda>r. \<not> finalizes (u ''s1'') r) requests_open \<and>
   map s_ended_at (rows_of (run ascii_lower init_db requests_open) (u ''s1'')) = [None] \<and>
   rows_of db_one_session (u ''s1'') \<noteq> [] \<and>
   map s_ended_at (rows_of (run ascii_lower (handle ascii_lower db_one_session
       (Finalize (u ''s1'') payload_unconfirmed (u ''2024-05-01T09:00:03'')
          (u ''2024-05-01T09:00:04'') (u ''2024-05-01T09:00:05''))) []) (u ''s1''))
     = [Some (u ''2024-05-01T09:00:04'')]"
proof -
  have o: "list_all (\<lambda>r. \<not> finalizes (u ''s1'') r) requests_open"
    by (simp add: requests_open_def)
  have r: "run ascii_lower init_db requests_open =
      handle ascii_lower db_one_session (Confirm (u ''s1'') True (u ''2024-05-01T09:00:02''))"
    by (simp add: run_def requests_open_def db_one_session_def del: handle.simps)
  have e: "run ascii_lower db [] = db" for db by (simp add: run_def)
  have n: "rows_of db_one_session (u ''s1'') \<noteq> []" by (simp add: rows_one_session)
  show ?thesis
    using o n
      ended_at_iff_completed [of ascii_lower requests_open "u ''s1''" db_one_session
        payload_unconfirmed "u ''2024-05-01T09:00:03''" "u ''2024-05-01T09:00:04''"
        "u ''2024-05-01T09:00:05''"]
      ended_at_iff_completed [of ascii_lower "[]" "u ''s1''" db_one_session
        payload_unconfirmed "u ''2024-05-01T09:00:03''" "u ''2024-05-01T09:00:04''"
        "u ''2024-05-01T09:00:05''"]
    by (simp add: r e rows_of_others rows_of_handle_finalize rows_one_session
        del: handle.simps)
qed

section \<open>The finalize endpoint\<close>

text \<open>
  C10. Every finalize request appends one complaint row that holds the fields of the
  request, \<open>is_confirmed\<close> included, and sets every row of the session to
  \<open>COMPLETED\<close> with \<open>ended_at\<close> the time of this call, overwriting what was
  there; it answers with \<open>success = True\<close>. None of this looks at \<open>is_confirmed\<close>
  or at the log of earlier steps, and a request that leaves \<open>is_confirmed\<close> out has
  it true.
\<close>

theorem finalize_unconditional:
  "complaint (fst (finalize_conversation db sid payload now1 now2 now3)) =
     complaint db @
       [\<lparr>c_id = length (complaint db) + 1, c_session_uuid = sid,
         c_raw_text = fr_raw_text payload, c_summary_text = fr_summary_text payload,
         c_category = fr_category payload, c_severity = fr_severity payload,
         c_handling_type = fr_handling_type payload,
         c_handling_desc = fr_handling_desc payload,
         c_is_confirmed = (if fr_is_confirmed payload then 1 else 0),
         c_created_at = now1\<rparr>] \<and>
   rows_of (fst (finalize_conversation db sid payload now1 now2 now3)) sid =
     map (\<lambda>s. s\<lparr>s_status := u ''COMPLETED'', s_ended_at := Some now2\<rparr>) (rows_of db sid) \<and>
   success (snd (finalize_conversation db sid payload now1 now2 now3)) \<and>
   fr_is_confirmed (new_FinalizeRequest raw_text summary_text category severity
     handling_type handling_desc None) = True"
  using rows_of_finalize [of db sid payload now1 now2 now3 sid]
  by (simp add: finalize_conversation_def Let_def update_session_status_def
      insert_complaint_def insert_log_def ok_def new_FinalizeRequest_def split: prod.splits)

theorem finalize_unconditional_witness:
  "fr_is_confirmed payload_unconfirmed = False \<and>
   map c_is_confirmed (complaint (fst (finalize_conversation db_one_session (u ''s1'')
     payload_unconfirmed (u ''2024-05-01T09:00:03'') (u ''2024-05-01T09:00:04'')
     (u ''2024-05-01T09:00:05'')))) = [0] \<and>
   map s_status (rows_of (fst (finalize_conversation db_one_session (u ''s1'')
     payload_unconfirmed (u ''2024-05-01T09:00:03'') (u ''2024-05-01T09:00:04'')
     (u ''2024-05-01T09:00:05''))) (u ''s1'')) = [u ''COMPLETED'']"
proof -
  have c: "complaint db_one_session = []"
    by (simp add: db_one_session_def start_conversation_def create_session_def init_db_def
        insert_log_def)
  have p: "fr_is_confirmed payload_unconfirmed = False"
    by (simp add: payload_unconfirmed_def new_FinalizeRequest_def)
  show ?thesis
    using finalize_unconditional [of db_one_session "u ''s1''" payload_unconfirmed
        "u ''2024-05-01T09:00:03''" "u ''2024-05-01T09:00:04''" "u ''2024-05-01T09:00:05''"]
    by (simp add: c p rows_one_session)
qed

section \<open>Reading the audit log\<close>

lemma created_at_selected: "le_created_at \<circ> selected = l_created_at"
  by (rule ext) (simp add: selected_def)

lemma fetch_logs_sorted: "sorted (map le_created_at (fetch_logs db f))"
  by (simp add: fetch_logs_def Let_def created_at_selected sorted_sort_key
      split: option.splits)

lemma fetch_logs_all: "mset (fetch_logs db None) = mset (map selected (log_entry db))"
  by (simp add: fetch_logs_def)

lemma fetch_logs_one:
  "sid \<noteq> [] \<Longrightarrow> mset (fetch_logs db (Some sid)) =
     mset (map selected (filter (\<lambda>r. l_session_uuid r = sid) (log_entry db)))"
  by (simp add: fetch_logs_def)

lemma fetch_logs_empty_filter: "fetch_logs db (Some []) = fetch_logs db None"
  by (simp add: fetch_logs_def)

lemma fetch_logs_increasing:
  "sorted_wrt (<) (map l_created_at (log_entry db)) \<Longrightarrow>
   fetch_logs db None = map selected (log_entry db)"
  by (simp add: fetch_logs_def sort_key_id_if_sorted strict_sorted_imp_sorted)

text \<open>
  C9, amended: \<open>fetch_logs\<close> returns its rows in non-decreasing order of
  \<open>created_at\<close>. With a non-empty session identifier the rows returned are exactly
  the log entries of that session; with no identifier, or with the empty string, they
  are the log entries of all sessions, and they come in insertion order whenever the
  stored \<open>created_at\<close> increase along the table.
\<close>

theorem fetch_logs_ordered:
  "sorted (map le_created_at (fetch_logs db f)) \<and>
   (sid \<noteq> [] \<longrightarrow>
      mset (fetch_logs db (Some sid)) =
        mset (map selected (filter (\<lambda>r. l_session_uuid r = sid) (log_entry db)))) \<and>
   mset (fetch_logs db None) = mset (map selected (log_entry db)) \<and>
   fetch_logs db (Some []) = fetch_logs db None \<and>
   (sorted_wrt (<) (map l_created_at (log_entry db)) \<longrightarrow>
      fetch_logs db None = map selected (log_entry db))"
  using fetch_logs_sorted fetch_logs_all fetch_logs_one fetch_logs_empty_filter
    fetch_logs_increasing
  by blast

lemma logs_two:
  "log_entry db_two_logs =
     [\<lparr>l_session_uuid = u ''s1'', l_step = u ''SESSION'', l_level = u ''INFO'',
       l_message = [49352, 47196, 50868, 32, 49464, 49496, 51060, 32, 49373, 49457, 46104,
                  50632, 49845, 45768, 45796, 46],
       l_payload = Some [(u ''debug_mode'', JBool False)],
       l_created_at = u ''2024-05-01T09:00:01''\<rparr>,
      \<lparr>l_session_uuid = u ''s2'', l_step = u ''CONFIRM'', l_level = u ''INFO'',
       l_message = [49324, 50857, 51088, 32, 54869, 51064, 32, 44208, 44284],
       l_payload = Some [(u ''is_confirmed'', JBool True)],
       l_created_at = u ''2024-05-01T08:00:00''\<rparr>]"
  by (simp add: db_two_logs_def db_one_session_def start_conversation_def create_session_def
      confirm_conversation_def insert_log_def init_db_def)

lemma stamps_order: "u ''2024-05-01T08:00:00'' < u ''2024-05-01T09:00:01''"
  "\<not> u ''2024-05-01T09:00:01'' \<le> u ''2024-05-01T08:00:00''"
  by (simp_all add: u_simps)

lemma s1_s2: "u ''s1'' \<noteq> []" "u ''s2'' \<noteq> u ''s1''" "u ''s1'' \<noteq> u ''s2''" "u ''s2'' \<noteq> []"
  by (simp_all add: u_simps)

text \<open>
  C9, as stated: when a session identifier is supplied, only that session's entries
  are returned. It fails for the empty string, which \<open>if session_uuid:\<close> treats as
  no filter: on a log of two entries, of sessions \<open>s1\<close> and \<open>s2\<close>, the filter
  \<open>""\<close> returns both.
\<close>

theorem fetch_logs_empty_filter_counterexample:
  "map le_step (fetch_logs db_two_logs (Some [])) = [u ''CONFIRM'', u ''SESSION''] \<and>
   map l_session_uuid (log_entry db_two_logs) = [u ''s1'', u ''s2'']"
  by (simp add: fetch_logs_def logs_two selected_def stamps_order)

theorem fetch_logs_ordered_witness:
  "u ''s1'' \<noteq> [] \<and>
   map le_step (fetch_logs db_two_logs (Some (u ''s1''))) = [u ''SESSION''] \<and>
   map le_step (fetch_logs db_two_logs None) = [u ''CONFIRM'', u ''SESSION''] \<and>
   sorted_wrt (<) (map l_created_at (log_entry db_one_session)) \<and>
   fetch_logs db_one_session None = map selected (log_entry db_one_session)"
proof -
  have l1: "map l_created_at (log_entry db_one_session) = [u ''2024-05-01T09:00:01'']"
    by (simp add: db_one_session_def start_conversation_def create_session_def
      insert_log_def init_db_def)
  have s: "sorted_wrt (<) (map l_created_at (log_entry db_one_session))"
    by (simp add: l1)
  have a: "map le_step (fetch_logs db_two_logs (Some (u ''s1''))) = [u ''SESSION'']"
    by (simp add: fetch_logs_def logs_two selected_def stamps_order s1_s2)
  have b: "map le_step (fetch_logs db_two_logs None) = [u ''CONFIRM'', u ''SESSION'']"
    by (simp add: fetch_logs_def logs_two selected_def stamps_order s1_s2)
  show ?thesis
    using s1_s2(1) s a b
      fetch_logs_ordered [of db_two_logs "Some (u ''s1'')" "u ''s1''"]
      fetch_logs_ordered [of db_one_session None "u ''s1''"]
    by simp
qed

end
